theory Spec2Isabelle
  imports Complex_Main "HOL-Library.Sublist"
begin

section \<open>Landfill simulation: field generation and animation frames (app5.py)\<close>

text \<open>
  The script \<^verbatim>\<open>app5.py\<close> evaluates two closed-form expressions over a fixed
  (distance, time) grid with numpy and slices the two resulting arrays into animation
  frames. The embedding follows the script line by line.

  Numbers. The script computes in IEEE double precision. Here every number is a
  \<^typ>\<open>real\<close>: the theorems below are about the formulas the script evaluates, in
  exact arithmetic; rounding, underflow and the printed form of a number are outside
  the model.

  Arrays. A one-dimensional array is a list, a two-dimensional array a list of rows
  (row index first, as numpy indexes them).
\<close>

type_synonym array1 = "real list"
type_synonym array2 = "real list list"

subsection \<open>The numpy operations the script uses\<close>

text \<open>
  \<^verbatim>\<open>np.linspace(start, stop, num)\<close>: \<open>num\<close> evenly spaced samples, both end points
  included. numpy computes \<open>arange(num) * step + start\<close> with
  \<open>step = (stop - start) / (num - 1)\<close> and then stores \<open>stop\<close> in the last cell.
\<close>

definition linspace :: "real \<Rightarrow> real \<Rightarrow> nat \<Rightarrow> array1" where
  "linspace start stop num =
     (if num = 0 then []
      else if num = 1 then [start]
      else (map (\<lambda>i. real i * ((stop - start) / real (num - 1)) + start) [0..<num])
             [num - 1 := stop])"

text \<open>
  \<^verbatim>\<open>np.meshgrid(x, t)\<close> with the default \<open>xy\<close> indexing: both results have
  \<open>len(t)\<close> rows and \<open>len(x)\<close> columns; row \<open>i\<close> of the first is \<open>x\<close>, row \<open>i\<close> of the
  second is \<open>t[i]\<close> repeated.
\<close>

definition meshgrid :: "array1 \<Rightarrow> array1 \<Rightarrow> array2 \<times> array2" where
  "meshgrid xs ts =
     (replicate (length ts) xs, map (\<lambda>ti. replicate (length xs) ti) ts)"

text \<open>
  Elementwise arithmetic. A unary operation or an operation with a scalar maps over
  the cells; an operation on two arrays pairs the cells. (numpy raises on two shapes
  that do not broadcast; the script only ever pairs arrays of one shape, both built by
  \<open>meshgrid\<close>.)
\<close>

definition amap :: "(real \<Rightarrow> real) \<Rightarrow> array2 \<Rightarrow> array2" where
  "amap f A = map (map f) A"

definition azip :: "(real \<Rightarrow> real \<Rightarrow> real) \<Rightarrow> array2 \<Rightarrow> array2 \<Rightarrow> array2" where
  "azip f A B = map (\<lambda>(r, s). map (\<lambda>(a, b). f a b) (zip r s)) (zip A B)"

definition np_exp :: "array2 \<Rightarrow> array2" where
  "np_exp A = amap exp A"

definition np_cos :: "array2 \<Rightarrow> array2" where
  "np_cos A = amap cos A"

definition a_neg :: "array2 \<Rightarrow> array2" where
  "a_neg A = amap (\<lambda>a. - a) A"

definition a_pow :: "array2 \<Rightarrow> nat \<Rightarrow> array2" where
  "a_pow A n = amap (\<lambda>a. a ^ n) A"

definition s_mul_a :: "real \<Rightarrow> array2 \<Rightarrow> array2" where
  "s_mul_a c A = amap (\<lambda>a. c * a) A"

definition a_mul_s :: "array2 \<Rightarrow> real \<Rightarrow> array2" where
  "a_mul_s A c = amap (\<lambda>a. a * c) A"

definition a_div_s :: "array2 \<Rightarrow> real \<Rightarrow> array2" where
  "a_div_s A c = amap (\<lambda>a. a / c) A"

definition a_sub :: "array2 \<Rightarrow> array2 \<Rightarrow> array2" where
  "a_sub A B = azip (\<lambda>a b. a - b) A B"

definition a_mul :: "array2 \<Rightarrow> array2 \<Rightarrow> array2" where
  "a_mul A B = azip (\<lambda>a b. a * b) A B"

definition a_div :: "array2 \<Rightarrow> array2 \<Rightarrow> array2" where
  "a_div A B = azip (\<lambda>a b. a / b) A B"

text \<open>\<^verbatim>\<open>A[:i, :]\<close>: the first \<open>i\<close> rows (all of them when \<open>i\<close> exceeds the row count),
  every column.\<close>

definition rows_upto :: "array2 \<Rightarrow> nat \<Rightarrow> array2" where
  "rows_upto A i = map (\<lambda>r. r) (take i A)"

text \<open>\<^verbatim>\<open>range(start, stop, step)\<close> for a positive step. (Python raises ValueError on
  step 0; the script's step is the constant 2.)\<close>

function py_range :: "nat \<Rightarrow> nat \<Rightarrow> nat \<Rightarrow> nat list" where
  "py_range i stop step =
     (if 0 < step \<and> i < stop then i # py_range (i + step) stop step else [])"
  by pat_completeness auto
termination
  by (relation "measure (\<lambda>(i, stop, step). stop - i)") auto

subsection \<open>Parameters (lines 13 to 19)\<close>

text \<open>The liner-type select box and the dictionary \<open>liner_values\<close> it indexes.\<close>

datatype liner_type = Clay | Geomembrane | Composite

fun liner_values :: "liner_type \<Rightarrow> real" where
  "liner_values Clay = 1 / 10 ^ 7"
| "liner_values Geomembrane = 1 / 10 ^ 9"
| "liner_values Composite = 1 / 10 ^ 10"

text \<open>The slider ranges: velocity in [0.1, 10.0], diffusion rate in [0.01, 2.0].\<close>

definition velocity_range :: "real \<Rightarrow> bool" where
  "velocity_range v = (1 / 10 \<le> v \<and> v \<le> 10)"

definition diffusion_range :: "real \<Rightarrow> bool" where
  "diffusion_range d = (1 / 100 \<le> d \<and> d \<le> 2)"

subsection \<open>Simulation domain (lines 22 to 24)\<close>

definition x_grid :: array1 where
  "x_grid = linspace 0 5 50"

definition t_grid :: array1 where
  "t_grid = linspace (1 / 10) 40 80"

definition X_mesh :: array2 where
  "X_mesh = fst (meshgrid x_grid t_grid)"

definition T_mesh :: array2 where
  "T_mesh = snd (meshgrid x_grid t_grid)"

subsection \<open>The two fields (lines 27 and 30)\<close>

text \<open>
  \<^verbatim>\<open>C_leachate = np.exp(-((X - velocity_leachate * T) ** 2) / (4 * T)) * np.exp(-k * 10)\<close>

  The right-hand side is first given as a function of the two mesh arrays it reads;
  \<open>C_leachate\<close> is its value on the script's meshes.
\<close>

definition leachate_expr :: "real \<Rightarrow> real \<Rightarrow> array2 \<Rightarrow> array2 \<Rightarrow> array2" where
  "leachate_expr velocity_leachate k X T =
     a_mul_s
       (np_exp (a_div (a_neg (a_pow (a_sub X (s_mul_a velocity_leachate T)) 2))
                      (s_mul_a 4 T)))
       (exp (- k * 10))"

definition C_leachate :: "real \<Rightarrow> real \<Rightarrow> array2" where
  "C_leachate velocity_leachate k = leachate_expr velocity_leachate k X_mesh T_mesh"

text \<open>
  \<^verbatim>\<open>C_gas = np.exp(-diffusion_gas * T / 10) * np.cos(np.pi * X / 20)**2\<close>
\<close>

definition gas_expr :: "real \<Rightarrow> array2 \<Rightarrow> array2 \<Rightarrow> array2" where
  "gas_expr diffusion_gas X T =
     a_mul (np_exp (a_div_s (s_mul_a (- diffusion_gas) T) 10))
           (a_pow (np_cos (a_div_s (s_mul_a pi X) 20)) 2)"

definition C_gas :: "real \<Rightarrow> array2" where
  "C_gas diffusion_gas = gas_expr diffusion_gas X_mesh T_mesh"

text \<open>The value both formulas take at one point \<open>(x, t)\<close>, as functions of that point.\<close>

definition leachate_at :: "real \<Rightarrow> real \<Rightarrow> real \<Rightarrow> real \<Rightarrow> real" where
  "leachate_at velocity k x t = exp (- ((x - velocity * t)\<^sup>2) / (4 * t)) * exp (- k * 10)"

definition gas_at :: "real \<Rightarrow> real \<Rightarrow> real \<Rightarrow> real" where
  "gas_at diffusion x t = exp (- diffusion * t / 10) * (cos (pi * x / 20))\<^sup>2"

subsection \<open>Animation frames (lines 33 to 41)\<close>

text \<open>
  A heat map carries its data and the bounds of its colour scale; a frame carries the
  two heat maps (leachate first, gas second) and its name. The name printed by the
  script is the text \<^verbatim>\<open>t = <round(t[i], 1)> days\<close>; the model keeps the time value
  \<open>t[i]\<close> the text is formatted from.
\<close>

record heatmap =
  z :: array2
  colorscale :: string
  zmin :: real
  zmax :: real

record frame =
  data :: "heatmap list"
  name_time :: real

definition mk_frame :: "array2 \<Rightarrow> array2 \<Rightarrow> array1 \<Rightarrow> nat \<Rightarrow> frame" where
  "mk_frame L G ts i =
     \<lparr> data = [ \<lparr> z = rows_upto L i, colorscale = ''Blues'', zmin = 0, zmax = 1 \<rparr>,
                \<lparr> z = rows_upto G i, colorscale = ''Oranges'', zmin = 0, zmax = 1 \<rparr> ],
       name_time = ts ! i \<rparr>"

text \<open>The loop: \<open>frames\<close> starts empty and every index of \<open>range(1, len(t), 2)\<close> appends
  one frame.\<close>

definition build_frames :: "array2 \<Rightarrow> array2 \<Rightarrow> array1 \<Rightarrow> frame list" where
  "build_frames L G ts =
     fold (\<lambda>i frames. frames @ [mk_frame L G ts i]) (py_range 1 (length ts) 2) []"

definition frames :: "real \<Rightarrow> real \<Rightarrow> real \<Rightarrow> frame list" where
  "frames velocity_leachate diffusion_gas k =
     build_frames (C_leachate velocity_leachate k) (C_gas diffusion_gas) t_grid"

text \<open>The slices of a frame, and the number of rows it shows.\<close>

definition leachate_slice :: "frame \<Rightarrow> array2" where
  "leachate_slice f = z (data f ! 0)"

definition gas_slice :: "frame \<Rightarrow> array2" where
  "gas_slice f = z (data f ! 1)"

section \<open>Properties of the grids, the array operations and the frame loop\<close>

lemma length_linspace: "length (linspace a b n) = n"
  by (simp add: linspace_def)

lemma nth_linspace:
  assumes "1 < n" "i < n"
  shows "linspace a b n ! i = a + real i * (b - a) / real (n - 1)"
proof (cases "i = n - 1")
  case True
  with assms show ?thesis by (simp add: linspace_def)
next
  case False
  with assms show ?thesis by (simp add: linspace_def add.commute)
qed

lemma length_x_grid: "length x_grid = 50"
  by (simp add: x_grid_def length_linspace)

lemma length_t_grid: "length t_grid = 80"
  by (simp add: t_grid_def length_linspace)

lemma nth_x_grid: "j < 50 \<Longrightarrow> x_grid ! j = 5 * real j / 49"
  by (simp add: x_grid_def nth_linspace)

lemma nth_t_grid: "i < 80 \<Longrightarrow> t_grid ! i = 1 / 10 + 399 * real i / 790"
  by (simp add: t_grid_def nth_linspace)

lemma length_amap: "length (amap f A) = length A"
  by (simp add: amap_def)

lemma nth_amap_len: "i < length A \<Longrightarrow> length (amap f A ! i) = length (A ! i)"
  by (simp add: amap_def)

lemma nth_amap: "i < length A \<Longrightarrow> j < length (A ! i) \<Longrightarrow> amap f A ! i ! j = f (A ! i ! j)"
  by (simp add: amap_def)

lemma length_azip: "length (azip f A B) = min (length A) (length B)"
  by (simp add: azip_def)

lemma nth_azip_len:
  "i < length A \<Longrightarrow> i < length B \<Longrightarrow> length (azip f A B ! i) = min (length (A ! i)) (length (B ! i))"
  by (simp add: azip_def)

lemma nth_azip:
  "i < length A \<Longrightarrow> i < length B \<Longrightarrow> j < length (A ! i) \<Longrightarrow> j < length (B ! i) \<Longrightarrow>
   azip f A B ! i ! j = f (A ! i ! j) (B ! i ! j)"
  by (simp add: azip_def)


lemma length_X_mesh: "length X_mesh = 80"
  by (simp add: X_mesh_def meshgrid_def length_t_grid)

lemma length_T_mesh: "length T_mesh = 80"
  by (simp add: T_mesh_def meshgrid_def length_t_grid)

lemma nth_X_mesh: "i < 80 \<Longrightarrow> X_mesh ! i = x_grid"
  by (simp add: X_mesh_def meshgrid_def length_t_grid)

lemma nth_T_mesh: "i < 80 \<Longrightarrow> T_mesh ! i = replicate 50 (t_grid ! i)"
  by (simp add: T_mesh_def meshgrid_def length_t_grid length_x_grid)

lemmas array_simps =
  length_amap nth_amap_len nth_amap length_azip nth_azip_len nth_azip
  length_X_mesh length_T_mesh nth_X_mesh nth_T_mesh length_x_grid length_t_grid

lemmas op_defs =
  np_exp_def np_cos_def a_neg_def a_pow_def s_mul_a_def a_mul_s_def a_div_s_def
  a_sub_def a_mul_def a_div_def

lemmas field_defs = C_leachate_def leachate_expr_def C_gas_def gas_expr_def

lemma length_C_leachate: "length (C_leachate v k) = 80"
  by (simp add: field_defs op_defs array_simps)

lemma length_C_gas: "length (C_gas d) = 80"
  by (simp add: field_defs op_defs array_simps)

lemma row_length_C_leachate: "i < 80 \<Longrightarrow> length (C_leachate v k ! i) = 50"
  by (simp add: field_defs op_defs array_simps)

lemma row_length_C_gas: "i < 80 \<Longrightarrow> length (C_gas d ! i) = 50"
  by (simp add: field_defs op_defs array_simps)

lemma C_leachate_nth:
  "i < 80 \<Longrightarrow> j < 50 \<Longrightarrow>
   C_leachate v k ! i ! j = leachate_at v k (x_grid ! j) (t_grid ! i)"
  by (simp add: field_defs leachate_at_def op_defs array_simps)

lemma C_gas_nth:
  "i < 80 \<Longrightarrow> j < 50 \<Longrightarrow> C_gas d ! i ! j = gas_at d (x_grid ! j) (t_grid ! i)"
  by (simp add: field_defs gas_at_def op_defs array_simps)

lemma fold_append_map: "fold (\<lambda>i fs. fs @ [f i]) is acc = acc @ map f is"
  by (induction "is" arbitrary: acc) simp_all

lemma build_frames_map:
  "build_frames L G ts = map (mk_frame L G ts) (py_range 1 (length ts) 2)"
  by (simp add: build_frames_def fold_append_map)

declare py_range.simps [simp del]

lemma length_py_range:
  "0 < s \<Longrightarrow> length (py_range i n s) = (n - i + (s - 1)) div s"
proof (induction i n s rule: py_range.induct)
  case (1 i stop step)
  show ?case
  proof (cases "i < stop")
    case True
    have "stop - i + (step - 1) = (stop - (i + step) + (step - 1)) + step \<or> stop - i + (step - 1) < step + step \<and> step \<le> stop - i + (step - 1) \<and> stop - (i + step) = 0"
      using True 1(2) by arith
    then show ?thesis
      using True 1 by (subst py_range.simps) (auto simp: div_add_self2 le_div_geq)
  next
    case False
    then show ?thesis using 1(2) by (subst py_range.simps) simp
  qed
qed

lemma nth_py_range:
  "k < length (py_range i n s) \<Longrightarrow> py_range i n s ! k = i + k * s"
proof (induction i n s arbitrary: k rule: py_range.induct)
  case (1 i stop step)
  show ?case
  proof (cases "0 < step \<and> i < stop")
    case True
    then have eq: "py_range i stop step = i # py_range (i + step) stop step"
      by (subst py_range.simps) simp
    show ?thesis
    proof (cases k)
      case 0
      then show ?thesis by (simp add: eq)
    next
      case (Suc k')
      with "1.prems" eq have "k' < length (py_range (i + step) stop step)" by simp
      from "1.IH" [OF True this] Suc show ?thesis by (simp add: eq)
    qed
  next
    case False
    then have "py_range i stop step = []" by (subst py_range.simps) simp
    with "1.prems" show ?thesis by simp
  qed
qed

lemma length_frames: "length (frames v d k) = 40"
  by (simp add: frames_def build_frames_map length_py_range length_t_grid)

lemma nth_frames:
  "n < 40 \<Longrightarrow> frames v d k ! n = mk_frame (C_leachate v k) (C_gas d) t_grid (1 + 2 * n)"
  by (simp add: frames_def build_frames_map length_py_range length_t_grid nth_py_range mult.commute)

lemma length_build_frames: "length (build_frames L G ts) = length ts div 2"
  by (simp add: build_frames_map length_py_range)

lemma slices_mk_frame:
  "leachate_slice (mk_frame L G ts i) = take i L" "gas_slice (mk_frame L G ts i) = take i G"
  by (simp_all add: leachate_slice_def gas_slice_def mk_frame_def rows_upto_def)

lemma t_grid_pos: "i < 80 \<Longrightarrow> 1 / 10 \<le> t_grid ! i"
  by (simp add: nth_t_grid)

lemma t_grid_strict_mono: "i < i' \<Longrightarrow> i' < 80 \<Longrightarrow> t_grid ! i < t_grid ! i'"
  by (simp add: nth_t_grid)

lemma x_grid_bounds: "j < 50 \<Longrightarrow> 0 \<le> x_grid ! j \<and> x_grid ! j \<le> 5"
  by (simp add: nth_x_grid)

lemma cos_sq_pos_on_domain:
  assumes "0 \<le> x" "x \<le> 5"
  shows "0 < (cos (pi * x / 20))\<^sup>2"
proof -
  have "pi * x / 20 \<le> pi * 5 / 20" using assms by simp
  also have "\<dots> < pi / 2" using pi_gt_zero by simp
  finally have up: "pi * x / 20 < pi / 2" .
  have "- (pi / 2) < 0" using pi_gt_zero by simp
  also have "0 \<le> pi * x / 20" using assms pi_ge_zero by simp
  finally have "0 < cos (pi * x / 20)" using up by (rule cos_gt_zero_pi)
  then show ?thesis by simp
qed

lemma gas_at_strict_decreasing:
  assumes "0 < d" "t < t'" "0 < (cos (pi * x / 20))\<^sup>2"
  shows "gas_at d x t' < gas_at d x t"
proof -
  have "- d * t' / 10 < - d * t / 10" using assms(1,2) by simp
  then have "exp (- d * t' / 10) < exp (- d * t / 10)" by simp
  then show ?thesis using assms(3) by (simp add: gas_at_def)
qed

lemma leachate_at_bounds:
  assumes "0 < t" "0 \<le> k"
  shows "0 \<le> leachate_at v k x t \<and> leachate_at v k x t \<le> 1"
proof -
  have "- ((x - v * t)\<^sup>2) / (4 * t) \<le> 0" using assms(1) by simp
  then have a: "exp (- ((x - v * t)\<^sup>2) / (4 * t)) \<le> 1" by simp
  have b: "exp (- k * 10) \<le> 1" using assms(2) by simp
  have "exp (- ((x - v * t)\<^sup>2) / (4 * t)) * exp (- k * 10) \<le> 1 * 1"
    using a b by (intro mult_mono) simp_all
  then show ?thesis by (simp add: leachate_at_def)
qed

lemma gas_at_bounds:
  assumes "0 \<le> t" "0 \<le> d"
  shows "0 \<le> gas_at d x t \<and> gas_at d x t \<le> 1"
proof -
  have a: "exp (- d * t / 10) \<le> 1" using assms by simp
  have b: "(cos (pi * x / 20))\<^sup>2 \<le> 1"
    using abs_cos_le_one [of "pi * x / 20"] by (simp only: abs_square_le_1)
  have "exp (- d * t / 10) * (cos (pi * x / 20))\<^sup>2 \<le> 1 * 1"
    using a b by (intro mult_mono) simp_all
  then show ?thesis by (simp add: gas_at_def)
qed

lemma liner_values_nonneg: "0 \<le> liner_values l"
  by (cases l) simp_all

lemma take_less_strict_prefix: "m < n \<Longrightarrow> m < length xs \<Longrightarrow> strict_prefix (take m xs) (take n xs)"
proof -
  assume a: "m < n" "m < length xs"
  have "take m xs = take m (take n xs)" using a by (simp add: min_def)
  then have "prefix (take m xs) (take n xs)" by (metis take_is_prefix)
  moreover have "length (take m xs) < length (take n xs)" using a by simp
  then have "take m xs \<noteq> take n xs" by (metis less_irrefl)
  ultimately show ?thesis by (simp only: strict_prefix_def simp_thms)
qed



lemma C_leachate_bounds:
  assumes "0 \<le> k" "i < 80" "j < 50"
  shows "0 \<le> C_leachate v k ! i ! j \<and> C_leachate v k ! i ! j \<le> 1"
proof -
  have "0 < t_grid ! i" using t_grid_pos [OF assms(2)] by simp
  from leachate_at_bounds [OF this assms(1)] show ?thesis
    using assms by (simp add: C_leachate_nth)
qed

lemma C_gas_bounds:
  assumes "0 \<le> d" "i < 80" "j < 50"
  shows "0 \<le> C_gas d ! i ! j \<and> C_gas d ! i ! j \<le> 1"
proof -
  have "0 \<le> t_grid ! i" using t_grid_pos [OF assms(2)] by simp
  from gas_at_bounds [OF this assms(1)] show ?thesis
    using assms by (simp add: C_gas_nth)
qed


lemma exp_neg_tenth_bounds:
  "90483 / 100000 < exp (- (1 / 10) :: real) \<and> exp (- (1 / 10) :: real) < 90484 / 100000"
proof -
  obtain t :: real where t: "\<bar>t\<bar> \<le> \<bar>- (1 / 10)\<bar>"
    and e: "exp (- (1 / 10)) =
              (\<Sum>m<4. ((- (1 / 10)) ^ m) / fact m) + (exp t / fact 4) * (- (1 / 10)) ^ 4"
    using Maclaurin_exp_le [of "- (1 / 10)" 4] by blast
  have s: "(\<Sum>m<4. ((- (1 / 10 :: real)) ^ m) / fact m) = 5429 / 6000"
    by (simp add: eval_nat_numeral)
  have r: "(exp t / fact 4) * (- (1 / 10)) ^ 4 = exp t / 240000"
    by (simp add: eval_nat_numeral)
  have t1: "t \<le> 1 / 10" using t by simp
  have "exp t \<le> exp (1 / 10)" using t1 by simp
  also have "\<dots> \<le> 1 + 1 / 10 + (1 / 10)\<^sup>2" by (rule exp_bound) simp_all
  finally have up: "exp t \<le> 111 / 100" by (simp add: power2_eq_square)
  have lo: "0 < exp t" by simp
  have eq: "exp (- (1 / 10)) = 5429 / 6000 + exp t / 240000"
    using e by (simp only: s r)
  show ?thesis unfolding eq using up lo by linarith
qed

lemma C_gas_pos: "i < 80 \<Longrightarrow> j < 50 \<Longrightarrow> 0 < C_gas d ! i ! j"
proof -
  assume i: "i < 80" and j: "j < 50"
  have "0 < (cos (pi * x_grid ! j / 20))\<^sup>2"
    using x_grid_bounds [OF j] by (intro cos_sq_pos_on_domain) simp_all
  then have "0 < gas_at d (x_grid ! j) (t_grid ! i)"
    by (simp add: gas_at_def)
  then show ?thesis using i j by (simp add: C_gas_nth)
qed

section \<open>The claims of the specification\<close>

text \<open>
  Claim C1. At every grid point, row \<open>i\<close> of the 80 time samples and column \<open>j\<close> of the 50
  distance samples, the leachate field holds
  \<open>exp (- (x - velocity * t)\<^sup>2 / (4 * t)) * exp (- k * 10)\<close> for \<open>x = x[j]\<close> and \<open>t = t[i]\<close>;
  the time samples start at 0.1, so the divisor is never zero.
\<close>

theorem leachate_field_value:
  assumes "i < 80" and "j < 50"
  shows "C_leachate v k ! i ! j =
           exp (- ((x_grid ! j - v * t_grid ! i)\<^sup>2) / (4 * t_grid ! i)) * exp (- k * 10)
         \<and> 1 / 10 \<le> t_grid ! i"
proof
  show "C_leachate v k ! i ! j =
          exp (- ((x_grid ! j - v * t_grid ! i)\<^sup>2) / (4 * t_grid ! i)) * exp (- k * 10)"
    using assms by (simp add: C_leachate_nth leachate_at_def)
  show "1 / 10 \<le> t_grid ! i"
    using assms(1) by (rule t_grid_pos)
qed

theorem leachate_field_value_witness:
  "(3::nat) < 80 \<and> (7::nat) < 50 \<and>
   C_leachate 2 (liner_values Geomembrane) ! 3 ! 7 =
     exp (- ((x_grid ! 7 - 2 * t_grid ! 3)\<^sup>2) / (4 * t_grid ! 3))
       * exp (- liner_values Geomembrane * 10)
   \<and> 1 / 10 \<le> t_grid ! 3"
  using leachate_field_value [of 3 7 2 "liner_values Geomembrane"] by simp

text \<open>
  Claim C2. At every grid point the gas field holds
  \<open>exp (- diffusion * t / 10) * (cos (pi * x / 20))\<^sup>2\<close> for \<open>x = x[j]\<close> and \<open>t = t[i]\<close>.
\<close>

theorem gas_field_value:
  assumes "i < 80" and "j < 50"
  shows "C_gas d ! i ! j = exp (- d * t_grid ! i / 10) * (cos (pi * x_grid ! j / 20))\<^sup>2"
  using assms by (simp add: C_gas_nth gas_at_def)

theorem gas_field_value_witness:
  "(3::nat) < 80 \<and> (7::nat) < 50 \<and>
   C_gas (3 / 10) ! 3 ! 7 = exp (- (3 / 10) * t_grid ! 3 / 10) * (cos (pi * x_grid ! 7 / 20))\<^sup>2"
  using gas_field_value [of 3 7 "3 / 10"] by simp

text \<open>The specification's count for claim C3, \<open>floor ((80 - 1) / 2) = 39\<close>, is not the
  number of frames the loop builds.\<close>

theorem frame_count_not_39:
  "(length t_grid - 1) div 2 = 39 \<and>
   length (frames 2 (3 / 10) (liner_values Geomembrane)) \<noteq> (length t_grid - 1) div 2"
  by (simp add: length_frames length_t_grid)

text \<open>
  Claim C3, as the script has it. \<open>range(1, 80, 2)\<close> visits the 40 indices
  \<open>1, 3, \<dots>, 79\<close>, so the loop appends 40 frames: the ceiling of \<open>(80 - 1) / 2\<close>, not
  its floor 39 (see \<open>frame_count_not_39\<close>).
\<close>

theorem frame_count:
  "length (frames v d k) = nat \<lceil>(real (length t_grid) - 1) / 2\<rceil> \<and> length (frames v d k) = 40"
proof -
  have "\<lceil>(79::real) / 2\<rceil> = 40" by (simp add: ceiling_eq_iff)
  then show ?thesis by (simp add: length_frames length_t_grid)
qed

text \<open>
  Claim C4. For a positive diffusion rate the gas field strictly decreases down every
  column: a later time index holds a strictly smaller value. The cosine factor is
  positive on the whole distance grid \<open>[0, 5]\<close>, and the time samples strictly increase.
\<close>

theorem gas_strictly_decreasing_in_time:
  assumes "0 < d" and "i < i'" and "i' < 80" and "j < 50"
  shows "C_gas d ! i' ! j < C_gas d ! i ! j"
proof -
  have "0 < (cos (pi * x_grid ! j / 20))\<^sup>2"
    using x_grid_bounds [OF assms(4)] by (intro cos_sq_pos_on_domain) simp_all
  moreover have "t_grid ! i < t_grid ! i'"
    using assms(2,3) by (rule t_grid_strict_mono)
  ultimately have "gas_at d (x_grid ! j) (t_grid ! i') < gas_at d (x_grid ! j) (t_grid ! i)"
    using assms(1) by (intro gas_at_strict_decreasing)
  then show ?thesis using assms by (simp add: C_gas_nth)
qed

theorem gas_strictly_decreasing_in_time_witness:
  "(0::real) < 3 / 10 \<and> (4::nat) < 5 \<and> (5::nat) < 80 \<and> (7::nat) < 50 \<and>
   C_gas (3 / 10) ! 5 ! 7 < C_gas (3 / 10) ! 4 ! 7"
  using gas_strictly_decreasing_in_time [of "3 / 10" 4 5 7] by simp



text \<open>
  Claim C6. Frame \<open>n\<close> (counted from 0) holds the rows \<open>[0, 1 + 2 * n)\<close> of both fields,
  so it has \<open>1 + 2 * n\<close> rows; its slices are proper prefixes of the full fields and of the
  slices of the next frame, whose row count is strictly larger.
\<close>

theorem frame_row_prefix:
  assumes "n < length (frames v d k)"
  shows "leachate_slice (frames v d k ! n) = take (1 + 2 * n) (C_leachate v k)
       \<and> gas_slice (frames v d k ! n) = take (1 + 2 * n) (C_gas d)
       \<and> length (leachate_slice (frames v d k ! n)) = 1 + 2 * n
       \<and> length (gas_slice (frames v d k ! n)) = 1 + 2 * n
       \<and> strict_prefix (leachate_slice (frames v d k ! n)) (C_leachate v k)
       \<and> strict_prefix (gas_slice (frames v d k ! n)) (C_gas d)
       \<and> (Suc n < length (frames v d k) \<longrightarrow>
            strict_prefix (leachate_slice (frames v d k ! n))
                          (leachate_slice (frames v d k ! Suc n))
          \<and> strict_prefix (gas_slice (frames v d k ! n)) (gas_slice (frames v d k ! Suc n))
          \<and> length (leachate_slice (frames v d k ! n))
              < length (leachate_slice (frames v d k ! Suc n)))"
proof -
  from assms have n: "n < 40" by (simp add: length_frames)
  have L: "leachate_slice (frames v d k ! n) = take (1 + 2 * n) (C_leachate v k)"
    and G: "gas_slice (frames v d k ! n) = take (1 + 2 * n) (C_gas d)"
    using n by (simp_all add: nth_frames slices_mk_frame)
  have lenL: "length (take (1 + 2 * n) (C_leachate v k)) = 1 + 2 * n"
    and lenG: "length (take (1 + 2 * n) (C_gas d)) = 1 + 2 * n"
    using n by (simp_all add: length_C_leachate length_C_gas)
  have fullL: "strict_prefix (take (1 + 2 * n) (C_leachate v k)) (C_leachate v k)"
    using take_less_strict_prefix [of "1 + 2 * n" 80 "C_leachate v k"] n
    by (simp add: length_C_leachate)
  have fullG: "strict_prefix (take (1 + 2 * n) (C_gas d)) (C_gas d)"
    using take_less_strict_prefix [of "1 + 2 * n" 80 "C_gas d"] n
    by (simp add: length_C_gas)
  have next_frame: "strict_prefix (leachate_slice (frames v d k ! n))
                          (leachate_slice (frames v d k ! Suc n))
          \<and> strict_prefix (gas_slice (frames v d k ! n)) (gas_slice (frames v d k ! Suc n))
          \<and> length (leachate_slice (frames v d k ! n))
              < length (leachate_slice (frames v d k ! Suc n))"
    if "Suc n < length (frames v d k)"
  proof -
    from that have sn: "Suc n < 40" by (simp add: length_frames)
    have L': "leachate_slice (frames v d k ! Suc n) = take (1 + 2 * Suc n) (C_leachate v k)"
      and G': "gas_slice (frames v d k ! Suc n) = take (1 + 2 * Suc n) (C_gas d)"
      using sn by (simp_all add: nth_frames slices_mk_frame)
    have "strict_prefix (take (1 + 2 * n) (C_leachate v k)) (take (1 + 2 * Suc n) (C_leachate v k))"
      using sn by (intro take_less_strict_prefix) (simp_all add: length_C_leachate)
    moreover have "strict_prefix (take (1 + 2 * n) (C_gas d)) (take (1 + 2 * Suc n) (C_gas d))"
      using sn by (intro take_less_strict_prefix) (simp_all add: length_C_gas)
    moreover have "length (take (1 + 2 * n) (C_leachate v k))
        < length (take (1 + 2 * Suc n) (C_leachate v k))"
      using sn by (simp add: length_C_leachate)
    ultimately show ?thesis by (simp only: L G L' G')
  qed
  show ?thesis
    using L G lenL lenG fullL fullG next_frame by auto
qed

theorem frame_row_prefix_witness:
  "3 < length (frames 2 (3 / 10) (liner_values Geomembrane))
   \<and> Suc 3 < length (frames 2 (3 / 10) (liner_values Geomembrane))
   \<and> leachate_slice (frames 2 (3 / 10) (liner_values Geomembrane) ! 3)
       = take (1 + 2 * 3) (C_leachate 2 (liner_values Geomembrane))
   \<and> gas_slice (frames 2 (3 / 10) (liner_values Geomembrane) ! 3)
       = take (1 + 2 * 3) (C_gas (3 / 10))
   \<and> length (leachate_slice (frames 2 (3 / 10) (liner_values Geomembrane) ! 3)) = 1 + 2 * 3
   \<and> length (gas_slice (frames 2 (3 / 10) (liner_values Geomembrane) ! 3)) = 1 + 2 * 3
   \<and> strict_prefix (leachate_slice (frames 2 (3 / 10) (liner_values Geomembrane) ! 3))
        (leachate_slice (frames 2 (3 / 10) (liner_values Geomembrane) ! Suc 3))
   \<and> strict_prefix (gas_slice (frames 2 (3 / 10) (liner_values Geomembrane) ! 3))
        (gas_slice (frames 2 (3 / 10) (liner_values Geomembrane) ! Suc 3))"
proof -
  have a: "3 < length (frames 2 (3 / 10) (liner_values Geomembrane))"
    and b: "Suc 3 < length (frames 2 (3 / 10) (liner_values Geomembrane))"
    by (simp_all add: length_frames)
  from frame_row_prefix [OF a] a b show ?thesis by blast
qed

text \<open>
  The specification's claim C7, that some parameter combination within the slider ranges
  drives a cell of either field above 1, fails: no combination does.
\<close>

theorem no_entry_exceeds_one:
  "\<not> (\<exists>v d l i j. velocity_range v \<and> diffusion_range d \<and> i < 80 \<and> j < 50 \<and>
         (1 < C_leachate v (liner_values l) ! i ! j \<or> 1 < C_gas d ! i ! j))"
proof
  assume "\<exists>v d l i j. velocity_range v \<and> diffusion_range d \<and> i < 80 \<and> j < 50 \<and>
         (1 < C_leachate v (liner_values l) ! i ! j \<or> 1 < C_gas d ! i ! j)"
  then obtain v d l i j where d: "diffusion_range d" and i: "i < (80::nat)" and j: "j < (50::nat)"
    and big: "1 < C_leachate v (liner_values l) ! i ! j \<or> 1 < C_gas d ! i ! j"
    by blast
  have "0 \<le> d" using d by (simp add: diffusion_range_def)
  from C_gas_bounds [OF this i j] C_leachate_bounds [OF liner_values_nonneg i j, of v l] big
  show False by linarith
qed

text \<open>
  Claim C7, as the script has it. For every velocity and diffusion rate within the slider
  ranges and every liner type, every cell of both fields lies in \<open>[0, 1]\<close>: each field is a
  product of an exponential of a non-positive number with a factor that is at most 1.
\<close>

theorem field_values_in_unit_interval:
  assumes "velocity_range v" and "diffusion_range d" and "i < 80" and "j < 50"
  shows "0 \<le> C_leachate v (liner_values l) ! i ! j \<and> C_leachate v (liner_values l) ! i ! j \<le> 1
       \<and> 0 \<le> C_gas d ! i ! j \<and> C_gas d ! i ! j \<le> 1"
proof -
  have "0 \<le> d" using assms(2) by (simp add: diffusion_range_def)
  from C_gas_bounds [OF this assms(3,4)]
    C_leachate_bounds [OF liner_values_nonneg assms(3,4), of v l]
  show ?thesis by simp
qed

theorem field_values_in_unit_interval_witness:
  "velocity_range 10 \<and> diffusion_range 2 \<and> (79::nat) < 80 \<and> (0::nat) < 50
   \<and> 0 \<le> C_leachate 10 (liner_values Clay) ! 79 ! 0
   \<and> C_leachate 10 (liner_values Clay) ! 79 ! 0 \<le> 1
   \<and> 0 \<le> C_gas 2 ! 79 ! 0 \<and> C_gas 2 ! 79 ! 0 \<le> 1"
proof -
  have v: "velocity_range 10" by (simp add: velocity_range_def)
  have d: "diffusion_range 2" by (simp add: diffusion_range_def)
  have i: "(79::nat) < 80" and j: "(0::nat) < 50" by simp_all
  from field_values_in_unit_interval [OF v d i j, of Clay] v d show ?thesis by simp
qed




text \<open>
  Claim C9. With 50 distance samples on \<open>[0, 5]\<close>, 80 time samples on \<open>[0.1, 40]\<close>,
  velocity 2 and the geomembrane liner (\<open>k = 1e-9\<close>), the leachate cell at \<open>x = 0\<close>,
  \<open>t = 0.1\<close> (row 0, column 0) is \<open>exp (- (0 - 2 * 0.1)\<^sup>2 / (4 * 0.1)) * exp (- 1e-9 * 10)\<close>,
  that is \<open>exp (- 0.1) * exp (- 1e-8)\<close>, which is 0.9048 to four decimal places.
\<close>

theorem leachate_at_origin:
  "C_leachate 2 (liner_values Geomembrane) ! 0 ! 0
     = exp (- ((0 - 2 * (1 / 10))\<^sup>2) / (4 * (1 / 10))) * exp (- (1 / 10 ^ 9) * 10)
   \<and> C_leachate 2 (liner_values Geomembrane) ! 0 ! 0 = exp (- (1 / 10)) * exp (- (1 / 10 ^ 8))
   \<and> \<bar>C_leachate 2 (liner_values Geomembrane) ! 0 ! 0 - 9048 / 10000\<bar> < 5 / 100000
   \<and> x_grid ! 0 = 0 \<and> t_grid ! 0 = 1 / 10 \<and> length x_grid = 50 \<and> length t_grid = 80
   \<and> x_grid ! 49 = 5 \<and> t_grid ! 79 = 40"
proof -
  have x0: "x_grid ! 0 = 0" and t0: "t_grid ! 0 = 1 / 10"
    and x49: "x_grid ! 49 = 5" and t79: "t_grid ! 79 = 40"
    by (simp_all add: nth_x_grid nth_t_grid)
  have v: "C_leachate 2 (liner_values Geomembrane) ! 0 ! 0
             = exp (- ((0 - 2 * (1 / 10))\<^sup>2) / (4 * (1 / 10))) * exp (- (1 / 10 ^ 9) * 10)"
    by (simp add: C_leachate_nth leachate_at_def x0 t0)
  have a: "- ((0 - 2 * (1 / 10 :: real))\<^sup>2) / (4 * (1 / 10)) = - (1 / 10)"
    by (simp add: power2_eq_square)
  have b: "- (1 / 10 ^ 9 :: real) * 10 = - (1 / 10 ^ 8)" by simp
  have v': "C_leachate 2 (liner_values Geomembrane) ! 0 ! 0
              = exp (- (1 / 10)) * exp (- (1 / 10 ^ 8))"
    unfolding v a b ..
  let ?a = "exp (- (1 / 10) :: real)" and ?b = "exp (- (1 / 10 ^ 8) :: real)"
  have a_lo: "90483 / 100000 < ?a" and a_hi: "?a < 90484 / 100000"
    using exp_neg_tenth_bounds by blast+
  have b_lo: "1 - 1 / 10 ^ 8 \<le> ?b"
    using exp_ge_add_one_self [of "- (1 / 10 ^ 8) :: real"] by simp
  have b_hi: "?b \<le> 1" by simp
  have "90483 / 100000 * (1 - 1 / 10 ^ 8) \<le> ?a * ?b"
    using a_lo b_lo by (intro mult_mono) simp_all
  then have lo: "90475 / 100000 < ?a * ?b" by simp
  have "?a * ?b \<le> ?a * 1"
    using b_hi by (intro mult_left_mono) simp_all
  then have "?a * ?b \<le> ?a" by (simp only: mult_1_right)
  with a_hi have hi: "?a * ?b < 90485 / 100000" by linarith
  have near: "\<bar>?a * ?b - 9048 / 10000\<bar> < 5 / 100000"
    using lo hi by linarith
  show ?thesis
    using v v' near x0 t0 x49 t79 length_x_grid length_t_grid by (simp only: simp_thms)
qed

text \<open>
  Claim C10. No frame holds a complete field: every frame of the sequence shows fewer than
  the 80 rows of the fields, and the last frame, the largest, shows 79.
\<close>

theorem no_frame_holds_full_field:
  assumes "f \<in> set (frames v d k)"
  shows "length (leachate_slice f) < length (C_leachate v k)
       \<and> length (gas_slice f) < length (C_gas d)
       \<and> length (C_leachate v k) = 80 \<and> length (C_gas d) = 80
       \<and> leachate_slice f \<noteq> C_leachate v k \<and> gas_slice f \<noteq> C_gas d
       \<and> length (leachate_slice (last (frames v d k))) = 79
       \<and> length (gas_slice (last (frames v d k))) = 79"
proof -
  from assms obtain n where n: "n < 40" and f: "f = frames v d k ! n"
    by (auto simp: in_set_conv_nth length_frames)
  have L: "length (leachate_slice f) = 1 + 2 * n" and G: "length (gas_slice f) = 1 + 2 * n"
    using n by (simp_all add: f nth_frames slices_mk_frame length_C_leachate length_C_gas)
  have ne: "frames v d k \<noteq> []" using length_frames [of v d k] by auto
  have last: "last (frames v d k) = frames v d k ! 39"
    using ne by (simp add: last_conv_nth length_frames)
  have lastL: "length (leachate_slice (last (frames v d k))) = 79"
    and lastG: "length (gas_slice (last (frames v d k))) = 79"
    by (simp_all add: last nth_frames slices_mk_frame length_C_leachate length_C_gas)
  have neL: "leachate_slice f \<noteq> C_leachate v k"
  proof
    assume "leachate_slice f = C_leachate v k"
    then have "length (leachate_slice f) = 80" by (simp add: length_C_leachate)
    with L n show False by simp
  qed
  have neG: "gas_slice f \<noteq> C_gas d"
  proof
    assume "gas_slice f = C_gas d"
    then have "length (gas_slice f) = 80" by (simp add: length_C_gas)
    with G n show False by simp
  qed
  show ?thesis
    using L G n neL neG lastL lastG by (simp add: length_C_leachate length_C_gas)
qed

theorem no_frame_holds_full_field_witness:
  "frames 2 (3 / 10) (liner_values Geomembrane) ! 39
      \<in> set (frames 2 (3 / 10) (liner_values Geomembrane))
   \<and> length (leachate_slice (frames 2 (3 / 10) (liner_values Geomembrane) ! 39))
       < length (C_leachate 2 (liner_values Geomembrane))
   \<and> length (gas_slice (frames 2 (3 / 10) (liner_values Geomembrane) ! 39))
       < length (C_gas (3 / 10))
   \<and> leachate_slice (frames 2 (3 / 10) (liner_values Geomembrane) ! 39)
       \<noteq> C_leachate 2 (liner_values Geomembrane)"
proof -
  have m: "frames 2 (3 / 10) (liner_values Geomembrane) ! 39
             \<in> set (frames 2 (3 / 10) (liner_values Geomembrane))"
    by (rule nth_mem) (simp add: length_frames)
  from no_frame_holds_full_field [OF m] m show ?thesis by blast
qed

end
